theory Spec2Isabelle
  imports Complex_Main "HOL-Library.Log_Nat"
begin

section \<open>The rai-ngan-wah area helpers of the tax map viewer\<close>

text \<open>
  This theory embeds the area helpers of \<^verbatim>\<open>src/components/TaxMapView.js\<close>
  (\<^verbatim>\<open>parseAreaToWah\<close>, \<^verbatim>\<open>wahToAreaStr\<close>, \<^verbatim>\<open>parseAreaParts\<close>, \<^verbatim>\<open>partsToStr\<close>,
  \<^verbatim>\<open>normalizeAreaStr\<close>) and the allocation arithmetic of \<^verbatim>\<open>LandUsePopup\<close>.

  Conventions of the embedding:
  \<^item> A JavaScript number is a \<open>jsnum\<close>: a finite binary64 value, carried as the rational
    number it denotes, or \<open>Infinity\<close>, \<open>-Infinity\<close>, \<open>NaN\<close>. Every arithmetic result and
    every parsed literal is rounded to binary64 by \<open>round64\<close>. The two zeros are one
    value \<open>Fin 0\<close>: the helpers never divide by a computed zero and print both as \<open>0\<close>.
  \<^item> A JavaScript string is a \<open>string\<close>; a \<open>char\<close> stands for a code unit below 256.
  \<^item> A JavaScript value is a \<open>jsval\<close>: \<open>undefined\<close>, \<open>null\<close>, a boolean, a number or a
    string. Objects, symbols and big integers are left out.
  \<^item> A function that can throw returns \<open>js_error + 'a\<close>.
\<close>

subsection \<open>Numbers\<close>

datatype jsnum = Fin rat | PInf | NInf | NaN

datatype jsval = JUndefined | JNull | JBool bool | JNum jsnum | JStr string

datatype js_error = TypeError

text \<open>
  Powers with an integer exponent, by repeated squaring; a negative exponent counts as
  \<open>0\<close>. Powers of two and of ten with any integer exponent.
\<close>

function ipow :: "rat \<Rightarrow> int \<Rightarrow> rat" where
  "ipow b e =
     (if e \<le> 0 then 1
      else if even e then ipow (b * b) (e div 2)
      else b * ipow (b * b) (e div 2))"
  by pat_completeness auto
termination
  by (relation "measure (\<lambda>(b, e). nat e)") auto

declare ipow.simps [simp del]

definition pow2 :: "int \<Rightarrow> rat" where
  "pow2 e = (if 0 \<le> e then ipow 2 e else 1 / ipow 2 (- e))"

definition pow10 :: "int \<Rightarrow> rat" where
  "pow10 e = (if 0 \<le> e then ipow 10 e else 1 / ipow 10 (- e))"

text \<open>
  The binary exponent of a positive rational \<open>q\<close>: the \<open>e\<close> with
  \<open>2 ^ e \<le> q < 2 ^ (e + 1)\<close>, from the bit lengths of numerator and denominator.
\<close>

definition binexp :: "rat \<Rightarrow> int" where
  "binexp q =
     (let (a, b) = quotient_of q; d = bitlen a - bitlen b
      in if pow2 d \<le> q then d else d - 1)"

text \<open>Rounding to the nearest integer, a tie going to the even one.\<close>

definition rne :: "rat \<Rightarrow> int" where
  "rne t =
     (let f = \<lfloor>t\<rfloor>; r = t - of_int f
      in if r < 1 / 2 then f else if 1 / 2 < r then f + 1
         else if even f then f else f + 1)"

text \<open>
  Rounding a rational to binary64: 53 significant bits, the exponent of the last bit no
  less than \<open>-1074\<close> (gradual underflow), nearest value with ties to even, and a result of
  magnitude \<open>2 ^ 1024\<close> or more is an infinity.
\<close>

definition round64 :: "rat \<Rightarrow> jsnum" where
  "round64 q =
     (if q = 0 then Fin 0
      else
        let a = \<bar>q\<bar>;
            p = max (binexp a) (- 1022) - 52;
            r = of_int (rne (a / pow2 p)) * pow2 p
        in if pow2 1024 \<le> r then (if q < 0 then NInf else PInf)
           else Fin (if q < 0 then - r else r))"

text \<open>Unary minus, \<^verbatim>\<open>+\<close>, \<^verbatim>\<open>-\<close>, \<^verbatim>\<open>*\<close> and \<^verbatim>\<open>/\<close> on numbers.\<close>

fun js_neg :: "jsnum \<Rightarrow> jsnum" where
  "js_neg (Fin a) = Fin (- a)"
| "js_neg PInf = NInf"
| "js_neg NInf = PInf"
| "js_neg NaN = NaN"

fun js_add :: "jsnum \<Rightarrow> jsnum \<Rightarrow> jsnum" where
  "js_add NaN y = NaN"
| "js_add x NaN = NaN"
| "js_add (Fin a) (Fin b) = round64 (a + b)"
| "js_add PInf NInf = NaN"
| "js_add NInf PInf = NaN"
| "js_add PInf y = PInf"
| "js_add NInf y = NInf"
| "js_add (Fin a) y = y"

definition js_sub :: "jsnum \<Rightarrow> jsnum \<Rightarrow> jsnum" where
  "js_sub x y = js_add x (js_neg y)"

text \<open>The sign of a number that is not \<open>NaN\<close>: \<open>-1\<close>, \<open>0\<close> or \<open>1\<close>.\<close>

fun js_sign :: "jsnum \<Rightarrow> int" where
  "js_sign (Fin a) = (if a < 0 then - 1 else if a = 0 then 0 else 1)"
| "js_sign PInf = 1"
| "js_sign NInf = - 1"
| "js_sign NaN = 0"

fun js_mul :: "jsnum \<Rightarrow> jsnum \<Rightarrow> jsnum" where
  "js_mul NaN y = NaN"
| "js_mul x NaN = NaN"
| "js_mul (Fin a) (Fin b) = round64 (a * b)"
| "js_mul x y =
     (if js_sign x * js_sign y = 0 then NaN
      else if js_sign x * js_sign y < 0 then NInf else PInf)"

fun js_div :: "jsnum \<Rightarrow> jsnum \<Rightarrow> jsnum" where
  "js_div NaN y = NaN"
| "js_div x NaN = NaN"
| "js_div (Fin a) (Fin b) =
     (if b = 0 then (if a = 0 then NaN else if a < 0 then NInf else PInf)
      else round64 (a / b))"
| "js_div (Fin a) y = Fin 0"
| "js_div x (Fin b) = (if js_sign x * (if b < 0 then - 1 else 1) < 0 then NInf else PInf)"
| "js_div x y = NaN"

text \<open>
  \<^verbatim>\<open>Math.floor\<close> and \<^verbatim>\<open>Math.round\<close> (halves go up). Both are exact: the floor of a
  binary64 value is one, and so is the nearest integer.
\<close>

fun js_floor :: "jsnum \<Rightarrow> jsnum" where
  "js_floor (Fin a) = Fin (of_int \<lfloor>a\<rfloor>)"
| "js_floor x = x"

fun js_round :: "jsnum \<Rightarrow> jsnum" where
  "js_round (Fin a) = Fin (of_int \<lfloor>a + 1 / 2\<rfloor>)"
| "js_round x = x"

text \<open>The comparisons \<^verbatim>\<open>x > y\<close> and \<^verbatim>\<open>x <= y\<close>: both are false when an operand is \<open>NaN\<close>.\<close>

fun js_lt :: "jsnum \<Rightarrow> jsnum \<Rightarrow> bool" where
  "js_lt NaN y = False"
| "js_lt x NaN = False"
| "js_lt (Fin a) (Fin b) = (a < b)"
| "js_lt PInf y = False"
| "js_lt x PInf = True"
| "js_lt NInf y = (y \<noteq> NInf)"
| "js_lt x NInf = False"

definition js_gt :: "jsnum \<Rightarrow> jsnum \<Rightarrow> bool" where
  "js_gt x y = js_lt y x"

definition js_le :: "jsnum \<Rightarrow> jsnum \<Rightarrow> bool" where
  "js_le x y = (x \<noteq> NaN \<and> y \<noteq> NaN \<and> \<not> js_lt y x)"

text \<open>Truthiness of a number and of a value, and the idiom \<^verbatim>\<open>x || 0\<close> on a number.\<close>

fun num_truthy :: "jsnum \<Rightarrow> bool" where
  "num_truthy (Fin a) = (a \<noteq> 0)"
| "num_truthy NaN = False"
| "num_truthy x = True"

fun truthy :: "jsval \<Rightarrow> bool" where
  "truthy JUndefined = False"
| "truthy JNull = False"
| "truthy (JBool b) = b"
| "truthy (JNum x) = num_truthy x"
| "truthy (JStr s) = (s \<noteq> [])"

definition or0 :: "jsnum \<Rightarrow> jsnum" where
  "or0 x = (if num_truthy x then x else Fin 0)"

subsection \<open>Strings: \<^verbatim>\<open>split\<close>, \<^verbatim>\<open>parseFloat\<close> and the conversion of a number to a string\<close>

text \<open>\<^verbatim>\<open>str.split(c)\<close> for a one-character separator: never the empty list.\<close>

fun split_on :: "char \<Rightarrow> string \<Rightarrow> string list" where
  "split_on c [] = [[]]"
| "split_on c (x # xs) =
     (if x = c then [] # split_on c xs
      else (x # hd (split_on c xs)) # tl (split_on c xs))"

text \<open>\<^verbatim>\<open>parts[i]\<close>: \<open>None\<close> stands for \<^verbatim>\<open>undefined\<close>.\<close>

definition nth_opt :: "'a list \<Rightarrow> nat \<Rightarrow> 'a option" where
  "nth_opt xs i = (if i < length xs then Some (xs ! i) else None)"

definition is_digit :: "char \<Rightarrow> bool" where
  "is_digit c = (c \<in> set ''0123456789'')"

definition digit_val :: "char \<Rightarrow> int" where
  "digit_val c = of_char c - 48"

definition digit_char :: "int \<Rightarrow> char" where
  "digit_char d = ''0123456789'' ! nat d"

text \<open>The white space that \<^verbatim>\<open>parseFloat\<close> skips, among the code units below 256.\<close>

definition is_ws :: "char \<Rightarrow> bool" where
  "is_ws c = (of_char c \<in> {9, 10, 11, 12, 13, 32, 160 :: nat})"

definition val_digits :: "string \<Rightarrow> int" where
  "val_digits ds = foldl (\<lambda>a c. 10 * a + digit_val c) 0 ds"

text \<open>An optional sign: whether it is a minus, and the rest of the text.\<close>

fun read_sign :: "string \<Rightarrow> bool \<times> string" where
  "read_sign (c # cs) =
     (if c = CHR ''-'' then (True, cs) else if c = CHR ''+'' then (False, cs)
      else (False, c # cs))"
| "read_sign [] = (False, [])"

text \<open>
  The exponent part that follows a mantissa: \<^verbatim>\<open>e\<close> or \<^verbatim>\<open>E\<close>, an optional sign, and at
  least one digit; anything else is no exponent.
\<close>

definition read_exp :: "string \<Rightarrow> int" where
  "read_exp r =
     (case r of
        [] \<Rightarrow> 0
      | c # cs \<Rightarrow>
          if c = CHR ''e'' \<or> c = CHR ''E'' then
            (let (neg, ds) = read_sign cs; e = takeWhile is_digit ds
             in if e = [] then 0
                else if neg then - val_digits e else val_digits e)
          else 0)"

text \<open>
  \<^verbatim>\<open>parseFloat\<close> on a string: leading white space is skipped, then the longest prefix that
  is a decimal literal (or a signed \<^verbatim>\<open>Infinity\<close>) is read and its value rounded to
  binary64; \<open>NaN\<close> when there is no such prefix.
\<close>

definition parseFloat :: "string \<Rightarrow> jsnum" where
  "parseFloat s =
     (let (neg, t) = read_sign (dropWhile is_ws s) in
      if take 8 t = ''Infinity'' then (if neg then NInf else PInf)
      else
        let ip = takeWhile is_digit t;
            r1 = dropWhile is_digit t;
            (fp, r2) = (case r1 of
                          c # u \<Rightarrow> if c = CHR ''.''
                                   then (takeWhile is_digit u, dropWhile is_digit u)
                                   else ([], r1)
                        | [] \<Rightarrow> ([], r1))
        in if ip = [] \<and> fp = [] then NaN
           else
             let m = (of_int (val_digits ip) + of_int (val_digits fp) / 10 ^ length fp)
                       * pow10 (read_exp r2)
             in round64 (if neg then - m else m))"

text \<open>\<^verbatim>\<open>parseFloat(parts[i])\<close>: an absent element is converted to the text \<^verbatim>\<open>undefined\<close>.\<close>

definition parseFloat_opt :: "string option \<Rightarrow> jsnum" where
  "parseFloat_opt p = (case p of None \<Rightarrow> parseFloat ''undefined'' | Some s \<Rightarrow> parseFloat s)"

text \<open>
  The conversion of a whole string to a number (\<^verbatim>\<open>ToNumber\<close>), which the operators
  \<^verbatim>\<open><=\<close>, \<^verbatim>\<open>/\<close> and \<^verbatim>\<open>-\<close> apply to a string operand: white space is trimmed at both
  ends, the empty text is \<open>0\<close>, and the rest must be, as a whole, a decimal literal, a
  signed \<^verbatim>\<open>Infinity\<close>, or an unsigned hexadecimal, octal or binary integer literal.
\<close>

definition trim_ws :: "string \<Rightarrow> string" where
  "trim_ws s = rev (dropWhile is_ws (rev (dropWhile is_ws s)))"

definition radix_digit :: "char \<Rightarrow> int option" where
  "radix_digit c =
     (let n = of_char c :: int
      in if 48 \<le> n \<and> n \<le> 57 then Some (n - 48)
         else if 97 \<le> n \<and> n \<le> 102 then Some (n - 87)
         else if 65 \<le> n \<and> n \<le> 70 then Some (n - 55)
         else None)"

definition radix_literal :: "int \<Rightarrow> string \<Rightarrow> jsnum" where
  "radix_literal b ds =
     (if ds \<noteq> [] \<and> list_all (\<lambda>c. case radix_digit c of None \<Rightarrow> False | Some d \<Rightarrow> d < b) ds
      then round64 (of_int (foldl (\<lambda>a c. b * a + the (radix_digit c)) 0 ds))
      else NaN)"

text \<open>The exponent part of a whole literal: \<open>None\<close> when something else follows.\<close>

definition whole_exp :: "string \<Rightarrow> int option" where
  "whole_exp r =
     (case r of
        [] \<Rightarrow> Some 0
      | c # cs \<Rightarrow>
          if c = CHR ''e'' \<or> c = CHR ''E'' then
            (let (neg, ds) = read_sign cs
             in if ds \<noteq> [] \<and> list_all is_digit ds
                then Some (if neg then - val_digits ds else val_digits ds)
                else None)
          else None)"

definition string_to_number :: "string \<Rightarrow> jsnum" where
  "string_to_number s =
     (let t = trim_ws s in
      if t = [] then Fin 0
      else if take 2 t = ''0x'' \<or> take 2 t = ''0X'' then radix_literal 16 (drop 2 t)
      else if take 2 t = ''0o'' \<or> take 2 t = ''0O'' then radix_literal 8 (drop 2 t)
      else if take 2 t = ''0b'' \<or> take 2 t = ''0B'' then radix_literal 2 (drop 2 t)
      else
        let (neg, u) = read_sign t in
        if u = ''Infinity'' then (if neg then NInf else PInf)
        else
          let ip = takeWhile is_digit u;
              r1 = dropWhile is_digit u;
              (fp, r2) = (case r1 of
                            c # w \<Rightarrow> if c = CHR ''.''
                                     then (takeWhile is_digit w, dropWhile is_digit w)
                                     else ([], r1)
                          | [] \<Rightarrow> ([], r1))
          in if ip = [] \<and> fp = [] then NaN
             else case whole_exp r2 of
                    None \<Rightarrow> NaN
                  | Some e \<Rightarrow>
                      let m = (of_int (val_digits ip) + of_int (val_digits fp) / 10 ^ length fp)
                                * pow10 e
                      in round64 (if neg then - m else m))"

fun to_number :: "jsval \<Rightarrow> jsnum" where
  "to_number JUndefined = NaN"
| "to_number JNull = Fin 0"
| "to_number (JBool b) = (if b then Fin 1 else Fin 0)"
| "to_number (JNum x) = x"
| "to_number (JStr s) = string_to_number s"

text \<open>The decimal digits of a natural number, most significant first.\<close>

function digits_of :: "int \<Rightarrow> string" where
  "digits_of n =
     (if n < 10 then [digit_char n] else digits_of (n div 10) @ [digit_char (n mod 10)])"
  by pat_completeness auto
termination
  by (relation "measure nat") auto

declare digits_of.simps [simp del]

text \<open>
  The decimal exponent of a positive rational \<open>q\<close>: the \<open>n\<close> with
  \<open>10 ^ (n - 1) \<le> q < 10 ^ n\<close>, from the numbers of digits of numerator and denominator.
\<close>

definition decexp :: "rat \<Rightarrow> int" where
  "decexp q =
     (let (a, b) = quotient_of q;
          d = int (length (digits_of a)) - int (length (digits_of b))
      in if pow10 d \<le> q then d + 1 else d)"

text \<open>
  The digits that \<^verbatim>\<open>Number::toString\<close> prints for a positive binary64 value \<open>q\<close> with
  decimal exponent \<open>n\<close>: the least number \<open>k\<close> of digits for which some integer \<open>s\<close> of
  \<open>k\<close> digits has \<open>s * 10 ^ (n - k)\<close> rounding to \<open>q\<close>; of two such \<open>s\<close> the one nearer
  to \<open>q\<close>, and the even one when they are equally near. The result is \<open>s\<close> with its
  exponent \<open>n - k\<close>. Only the two integers next to \<open>q / 10 ^ (n - k)\<close> can qualify. The
  search ends at the latest where the decimal expansion of a binary64 value ends.
\<close>

function shortest :: "rat \<Rightarrow> int \<Rightarrow> int \<Rightarrow> int \<times> int" where
  "shortest q n k =
     (let e = n - k;
          t = q / pow10 e;
          lo = \<lfloor>t\<rfloor>;
          hi = lo + 1;
          ok_lo = (round64 (of_int lo * pow10 e) = Fin q);
          ok_hi = (round64 (of_int hi * pow10 e) = Fin q)
      in if ok_lo \<and> ok_hi then
           (if t - of_int lo < of_int hi - t then (lo, e)
            else if of_int hi - t < t - of_int lo then (hi, e)
            else if even lo then (lo, e) else (hi, e))
         else if ok_lo then (lo, e)
         else if ok_hi then (hi, e)
         else if snd (quotient_of q) \<le> k - n then (lo, e)
         else shortest q n (k + 1))"
  by pat_completeness auto
termination
  by (relation "measure (\<lambda>(q, n, k). nat (snd (quotient_of q) + n - k))") auto

declare shortest.simps [simp del]

text \<open>Dropping the trailing zeros of a digit string.\<close>

definition strip_zeros :: "string \<Rightarrow> string" where
  "strip_zeros ds = rev (dropWhile (\<lambda>c. c = CHR ''0'') (rev ds))"

text \<open>
  The notation of \<^verbatim>\<open>Number::toString\<close> for the positive number \<open>m / 10 ^ e\<close>: with \<open>s\<close>
  the significant digits, \<open>k\<close> their number and \<open>n\<close> the position of the decimal point,
  the fixed notation when \<open>-6 < n \<le> 21\<close> and the exponent notation otherwise.
\<close>

definition print_decimal :: "int \<Rightarrow> nat \<Rightarrow> string" where
  "print_decimal m e =
     (let ds = digits_of m;
          s = strip_zeros ds;
          k = int (length s);
          n = int (length ds) - int e
      in if - 6 < n \<and> n \<le> 21 then
           (if k \<le> n then s @ replicate (nat (n - k)) (CHR ''0'')
            else if 0 < n then take (nat n) s @ ''.'' @ drop (nat n) s
            else ''0.'' @ replicate (nat (- n)) (CHR ''0'') @ s)
         else
           (if k = 1 then s else [hd s] @ ''.'' @ tl s)
             @ ''e'' @ (if 0 \<le> n - 1 then ''+'' else ''-'') @ digits_of (nat \<bar>n - 1\<bar>))"

definition pos_to_string :: "rat \<Rightarrow> string" where
  "pos_to_string q =
     (let (s, e) = shortest q (decexp q) 1
      in if 0 \<le> e then print_decimal (s * 10 ^ nat e) 0
         else print_decimal s (nat (- e)))"

text \<open>The conversion of a number to a string, as a template literal does it.\<close>

fun num_to_string :: "jsnum \<Rightarrow> string" where
  "num_to_string NaN = ''NaN''"
| "num_to_string PInf = ''Infinity''"
| "num_to_string NInf = ''-Infinity''"
| "num_to_string (Fin q) =
     (if q = 0 then ''0''
      else if q < 0 then ''-'' @ pos_to_string (- q)
      else pos_to_string q)"

subsection \<open>The area helpers\<close>

text \<open>\<^verbatim>\<open>parseAreaToWah\<close>: the area text to a number of wah.\<close>

definition part_or0 :: "jsnum list \<Rightarrow> nat \<Rightarrow> jsnum" where
  "part_or0 parts i = (case nth_opt parts i of None \<Rightarrow> Fin 0 | Some x \<Rightarrow> or0 x)"

fun parseAreaToWah :: "jsval \<Rightarrow> jsnum" where
  "parseAreaToWah (JStr str) =
     (if str = [] then Fin 0
      else
        let parts = map (\<lambda>s. or0 (parseFloat s)) (split_on (CHR ''-'') str);
            rai = part_or0 parts 0;
            ngan = part_or0 parts 1;
            wah = part_or0 parts 2
        in js_add (js_add (js_mul rai (Fin 400)) (js_mul ngan (Fin 100))) wah)"
| "parseAreaToWah v = Fin 0"

text \<open>
  \<^verbatim>\<open>wahToAreaStr\<close>: a number of wah to the area text. The argument is any value: the
  guard tests its truthiness, and the comparison and the arithmetic convert it to a number.
\<close>

definition wahToAreaStr :: "jsval \<Rightarrow> string" where
  "wahToAreaStr v =
     (if \<not> truthy v \<or> js_le (to_number v) (Fin 0) then ''0-0-0''
      else
        let totalWah = to_number v;
            rai = js_floor (js_div totalWah (Fin 400));
            remain = js_sub totalWah (js_mul rai (Fin 400));
            ngan = js_floor (js_div remain (Fin 100));
            wah = js_div (js_round (js_mul (js_sub remain (js_mul ngan (Fin 100))) (Fin 100)))
                    (Fin 100)
        in num_to_string rai @ ''-'' @ num_to_string ngan @ ''-'' @ num_to_string wah)"

text \<open>\<^verbatim>\<open>parseAreaParts\<close>: the three editable fields of an area text.\<close>

record area_parts =
  rai :: string
  ngan :: string
  wah :: string

definition part_field :: "string list \<Rightarrow> nat \<Rightarrow> string" where
  "part_field parts i =
     (if nth_opt parts i \<noteq> None \<and> nth_opt parts i \<noteq> Some ''0'' then the (nth_opt parts i)
      else if nth_opt parts i = Some ''0'' then ''0'' else '''')"

fun parseAreaParts :: "jsval \<Rightarrow> area_parts" where
  "parseAreaParts (JStr str) =
     (if str = [] then \<lparr>rai = '''', ngan = '''', wah = ''''\<rparr>
      else
        let parts = split_on (CHR ''-'') str
        in \<lparr>rai = part_field parts 0, ngan = part_field parts 1, wah = part_field parts 2\<rparr>)"
| "parseAreaParts v = \<lparr>rai = '''', ngan = '''', wah = ''''\<rparr>"

text \<open>\<^verbatim>\<open>partsToStr\<close>: the three fields back to one text.\<close>

definition partsToStr :: "string \<Rightarrow> string \<Rightarrow> string \<Rightarrow> string" where
  "partsToStr raiS nganS wahS =
     (let r = (if raiS = '''' then '''' else raiS);
          n = (if nganS = '''' then '''' else nganS);
          w = (if wahS = '''' then '''' else wahS)
      in r @ ''-'' @ n @ ''-'' @ w)"

text \<open>
  \<^verbatim>\<open>normalizeAreaStr\<close>: the text that is stored. The guard is \<^verbatim>\<open>!str\<close> alone, so a truthy
  value that is not a string reaches \<^verbatim>\<open>str.split\<close>, which is not a function there.
\<close>

fun normalizeAreaStr :: "jsval \<Rightarrow> js_error + string" where
  "normalizeAreaStr (JStr str) =
     (if str = [] then Inr ''''
      else
        let parts = split_on (CHR ''-'') str;
            r = or0 (parseFloat_opt (nth_opt parts 0));
            n = or0 (parseFloat_opt (nth_opt parts 1));
            w = or0 (parseFloat_opt (nth_opt parts 2))
        in if r = Fin 0 \<and> n = Fin 0 \<and> w = Fin 0 then Inr ''''
           else Inr (num_to_string r @ ''-'' @ num_to_string n @ ''-'' @ num_to_string w))"
| "normalizeAreaStr v = (if \<not> truthy v then Inr '''' else Inl TypeError)"

subsection \<open>The allocation arithmetic of \<^verbatim>\<open>LandUsePopup\<close>\<close>

text \<open>
  The state of the popup: the selected category keys, in order, and the area text of each
  category. \<^verbatim>\<open>areas[key]\<close> of an absent key is \<^verbatim>\<open>undefined\<close>.
\<close>

record popup =
  selected :: "string list"
  areas :: "string \<rightharpoonup> jsval"

definition area_at :: "(string \<rightharpoonup> jsval) \<Rightarrow> string \<Rightarrow> jsval" where
  "area_at a key = (case a key of None \<Rightarrow> JUndefined | Some v \<Rightarrow> v)"

definition totalWah :: "jsval \<Rightarrow> jsnum" where
  "totalWah totalArea = parseAreaToWah totalArea"

definition usedWah :: "popup \<Rightarrow> jsnum" where
  "usedWah st =
     foldl (\<lambda>sum key. js_add sum (parseAreaToWah (area_at (areas st) key))) (Fin 0) (selected st)"

definition remainWah :: "jsval \<Rightarrow> popup \<Rightarrow> jsnum" where
  "remainWah totalArea st = js_sub (totalWah totalArea) (usedWah st)"

definition isOverLimit :: "jsval \<Rightarrow> popup \<Rightarrow> bool" where
  "isOverLimit totalArea st =
     (js_gt (totalWah totalArea) (Fin 0) \<and> js_gt (usedWah st) (totalWah totalArea))"

text \<open>\<^verbatim>\<open>toggle\<close>: deselecting a category deletes its area entry; selecting appends the key.\<close>

definition toggle :: "string \<Rightarrow> popup \<Rightarrow> popup" where
  "toggle key st =
     (if key \<in> set (selected st)
      then \<lparr>selected = filter (\<lambda>k. k \<noteq> key) (selected st), areas = (areas st)(key := None)\<rparr>
      else \<lparr>selected = selected st @ [key], areas = areas st\<rparr>)"

definition handleAreaChange :: "string \<Rightarrow> string \<Rightarrow> popup \<Rightarrow> popup" where
  "handleAreaChange key val st = st\<lparr>areas := (areas st)(key \<mapsto> JStr val)\<rparr>"

text \<open>\<^verbatim>\<open>autoFillRemain\<close>, and the sum over the other categories that it starts from.\<close>

definition otherUsed :: "popup \<Rightarrow> string \<Rightarrow> jsnum" where
  "otherUsed st key =
     foldl (\<lambda>sum k. if k = key then sum else js_add sum (parseAreaToWah (area_at (areas st) k)))
       (Fin 0) (selected st)"

definition autoFillRemain :: "jsval \<Rightarrow> string \<Rightarrow> popup \<Rightarrow> popup" where
  "autoFillRemain totalArea key st =
     (let remaining = js_sub (totalWah totalArea) (otherUsed st key)
      in if js_gt remaining (Fin 0)
         then st\<lparr>areas := (areas st)(key \<mapsto> JStr (wahToAreaStr (JNum remaining)))\<rparr>
         else st)"

text \<open>
  The row of a category gets the \<^verbatim>\<open>onAutoFill\<close> callback only when the total is positive,
  and shows the button only when the callback is there and the remainder it is given
  (\<^verbatim>\<open>totalWah - otherUsed\<close>, or \<open>0\<close> without a total) is positive.
\<close>

definition onAutoFill_given :: "jsval \<Rightarrow> bool" where
  "onAutoFill_given totalArea = js_gt (totalWah totalArea) (Fin 0)"

definition remainWah_prop :: "jsval \<Rightarrow> popup \<Rightarrow> string \<Rightarrow> jsnum" where
  "remainWah_prop totalArea st key =
     (if js_gt (totalWah totalArea) (Fin 0)
      then js_sub (totalWah totalArea) (otherUsed st key) else Fin 0)"

definition autoFill_offered :: "jsval \<Rightarrow> popup \<Rightarrow> string \<Rightarrow> bool" where
  "autoFill_offered totalArea st key =
     (onAutoFill_given totalArea \<and> js_gt (remainWah_prop totalArea st key) (Fin 0))"

subsection \<open>The specification's own words\<close>

text \<open>
  The specification speaks of a sum over the allocated categories, of components that
  are parsed as numbers with an unparseable or missing component taken as \<open>0\<close>, and of a
  wah part rounded to two decimal places, \<^verbatim>\<open>round(x * 100) / 100\<close>. These definitions
  follow those words, on the numbers and operators of the code; the theorems below compare
  them with the code. The sum adds the terms in their order, starting from \<open>0\<close>.
\<close>

definition spec_sum :: "jsnum list \<Rightarrow> jsnum" where
  "spec_sum xs = foldl js_add (Fin 0) xs"

definition spec_component :: "string list \<Rightarrow> nat \<Rightarrow> jsnum" where
  "spec_component ps i =
     (if i < length ps \<and> parseFloat (ps ! i) \<noteq> NaN then parseFloat (ps ! i) else Fin 0)"

definition spec_scalar :: "string list \<Rightarrow> jsnum" where
  "spec_scalar ps =
     js_add (js_add (js_mul (spec_component ps 0) (Fin 400))
                    (js_mul (spec_component ps 1) (Fin 100)))
       (spec_component ps 2)"

definition spec_round2 :: "jsnum \<Rightarrow> jsnum" where
  "spec_round2 x = js_div (js_round (js_mul x (Fin 100))) (Fin 100)"

definition spec_text :: "jsnum \<Rightarrow> string" where
  "spec_text x =
     (let rai = js_floor (js_div x (Fin 400));
          remainder = js_sub x (js_mul rai (Fin 400));
          ngan = js_floor (js_div remainder (Fin 100));
          wah = spec_round2 (js_sub remainder (js_mul ngan (Fin 100)))
      in num_to_string rai @ ''-'' @ num_to_string ngan @ ''-'' @ num_to_string wah)"

text \<open>
  The allocation of the specification's examples: categories \<open>a\<close> and \<open>b\<close> hold
  \<open>5-0-0\<close> and \<open>3-0-0\<close>; \<open>example_target\<close> has a third category selected, with no area yet.
\<close>

definition example_popup :: popup where
  "example_popup =
     \<lparr>selected = [''a'', ''b''],
      areas = [''a'' \<mapsto> JStr ''5-0-0'', ''b'' \<mapsto> JStr ''3-0-0'']\<rparr>"

definition example_target :: popup where
  "example_target = toggle ''c'' example_popup"

section \<open>Properties\<close>

subsection \<open>Numbers\<close>

lemma or0_cases: "or0 x = (if x = NaN then Fin 0 else x)"
  by (cases x) (auto simp: or0_def)

lemma ipow_power: "0 \<le> e \<Longrightarrow> ipow b e = b ^ nat e"
proof (induction b e rule: ipow.induct)
  case (1 b e)
  show ?case
  proof (cases "e = 0")
    case True
    then show ?thesis by (subst ipow.simps) simp
  next
    case False
    then have pos: "0 < e" using "1.prems" by simp
    have half: "0 \<le> e div 2" using pos by simp
    show ?thesis
    proof (cases "even e")
      case True
      then have "ipow b e = ipow (b * b) (e div 2)"
        using pos by (subst ipow.simps) simp
      also have "\<dots> = (b * b) ^ nat (e div 2)"
        using "1.IH"(1) pos True half by simp
      also have "\<dots> = b ^ (2 * nat (e div 2))"
        by (simp add: power_mult power2_eq_square)
      also have "2 * nat (e div 2) = nat e"
        using True pos by (auto elim!: evenE)
      finally show ?thesis .
    next
      case False
      then have "ipow b e = b * ipow (b * b) (e div 2)"
        using pos by (subst ipow.simps) simp
      also have "\<dots> = b * (b * b) ^ nat (e div 2)"
        using "1.IH"(2) pos False half by simp
      also have "\<dots> = b ^ Suc (2 * nat (e div 2))"
        by (simp add: power_mult power2_eq_square)
      also have "Suc (2 * nat (e div 2)) = nat e"
        using False pos by (auto elim!: oddE)
      finally show ?thesis .
    qed
  qed
qed

lemma pow10_power: "pow10 e = (if 0 \<le> e then 10 ^ nat e else 1 / 10 ^ nat (- e))"
  by (simp add: pow10_def ipow_power)

lemma pow2_power: "pow2 e = (if 0 \<le> e then 2 ^ nat e else 1 / 2 ^ nat (- e))"
  by (simp add: pow2_def ipow_power)

lemma pow10_pos: "0 < pow10 e"
  by (simp add: pow10_power)

lemma pow2_pos: "0 < pow2 e"
  by (simp add: pow2_power)

lemma round64_0 [simp]: "round64 0 = Fin 0"
  by (simp add: round64_def)

lemma rne_nonneg: "0 \<le> t \<Longrightarrow> 0 \<le> rne t"
  by (auto simp: rne_def Let_def)

lemma round64_nonneg:
  assumes "0 \<le> q"
  shows "round64 q = PInf \<or> (\<exists>r. round64 q = Fin r \<and> 0 \<le> r)"
proof (cases "q = 0")
  case True
  then show ?thesis by (simp add: round64_def)
next
  case False
  define p where "p = max (binexp \<bar>q\<bar>) (- 1022) - 52"
  have "0 \<le> \<bar>q\<bar> / pow2 p" using pow2_pos [of p] by simp
  then have "0 \<le> rne (\<bar>q\<bar> / pow2 p)" by (rule rne_nonneg)
  then have "0 \<le> of_int (rne (\<bar>q\<bar> / pow2 p)) * pow2 p"
    using pow2_pos [of p] by simp
  then show ?thesis
    using False assms by (auto simp: round64_def Let_def p_def)
qed

lemma foldl_skip:
  "foldl (\<lambda>s k. if k = key then s else g s (f k)) a ks
     = foldl g a (map f (filter (\<lambda>k. k \<noteq> key) ks))"
  by (induction ks arbitrary: a) simp_all

lemma parseFloat_undefined: "parseFloat ''undefined'' = NaN"
  by code_simp

subsection \<open>Splitting at the separator\<close>

lemma split_on_nonempty [simp]: "split_on c s \<noteq> []"
  by (induction s) auto

lemma split_on_no_sep: "c \<notin> set s \<Longrightarrow> split_on c s = [s]"
  by (induction s) auto

lemma split_on_append: "c \<notin> set a \<Longrightarrow> split_on c (a @ c # b) = a # split_on c b"
  by (induction a) auto

lemma split_on_parts_no_sep: "p \<in> set (split_on c s) \<Longrightarrow> c \<notin> set p"
proof (induction s arbitrary: p)
  case Nil
  then show ?case by simp
next
  case (Cons x xs)
  obtain h t where ht: "split_on c xs = h # t"
    by (cases "split_on c xs") auto
  show ?case
  proof (cases "x = c")
    case True
    with Cons show ?thesis by auto
  next
    case False
    with Cons.prems ht have "p = x # h \<or> p \<in> set t" by auto
    then show ?thesis
    proof
      assume "p = x # h"
      moreover have "c \<notin> set h" using Cons.IH [of h] ht by simp
      ultimately show ?thesis using False by auto
    next
      assume "p \<in> set t"
      then show ?thesis using Cons.IH [of p] ht by simp
    qed
  qed
qed

subsection \<open>The components of an area text\<close>

lemma part_or0_map:
  "part_or0 (map (\<lambda>s. or0 (parseFloat s)) ps) i = spec_component ps i"
  by (auto simp: part_or0_def nth_opt_def spec_component_def or0_cases)

lemma or0_parseFloat_opt:
  "or0 (parseFloat_opt (nth_opt ps i)) = spec_component ps i"
  by (auto simp: parseFloat_opt_def nth_opt_def spec_component_def or0_cases
      parseFloat_undefined)

lemma spec_component_take: "i < n \<Longrightarrow> spec_component (take n ps) i = spec_component ps i"
  by (auto simp: spec_component_def)

lemma spec_scalar_take3: "spec_scalar (take 3 ps) = spec_scalar ps"
  by (simp add: spec_scalar_def spec_component_take)

lemma parseFloat_empty: "parseFloat [] = NaN"
  by code_simp

lemma parseAreaToWah_JStr: "parseAreaToWah (JStr s) = spec_scalar (split_on (CHR ''-'') s)"
proof (cases "s = []")
  case True
  then show ?thesis by (simp add: spec_scalar_def spec_component_def parseFloat_empty)
next
  case False
  then show ?thesis by (simp add: Let_def part_or0_map spec_scalar_def)
qed

subsection \<open>Sums over the selected categories\<close>

lemma usedWah_sum:
  "usedWah st = spec_sum (map (\<lambda>k. parseAreaToWah (area_at (areas st) k)) (selected st))"
  by (simp add: usedWah_def spec_sum_def foldl_map)

lemma otherUsed_sum:
  "otherUsed st key =
     spec_sum (map (\<lambda>k. parseAreaToWah (area_at (areas st) k))
       (filter (\<lambda>k. k \<noteq> key) (selected st)))"
  unfolding otherUsed_def spec_sum_def
  by (rule foldl_skip [where g = js_add])

lemma toggle_off:
  assumes "key \<in> set (selected st)"
  shows "areas (toggle key st) key = None"
    and "key \<notin> set (selected (toggle key st))"
    and "usedWah (toggle key st) = otherUsed st key"
proof -
  show "areas (toggle key st) key = None" "key \<notin> set (selected (toggle key st))"
    using assms by (simp_all add: toggle_def)
  have eq: "map (\<lambda>k. parseAreaToWah (area_at ((areas st)(key := None)) k))
              (filter (\<lambda>k. k \<noteq> key) (selected st))
      = map (\<lambda>k. parseAreaToWah (area_at (areas st) k)) (filter (\<lambda>k. k \<noteq> key) (selected st))"
    by (rule map_cong) (auto simp: area_at_def)
  show "usedWah (toggle key st) = otherUsed st key"
    using assms by (simp add: usedWah_sum otherUsed_sum toggle_def eq)
qed

lemma normalizeAreaStr_JStr:
  "normalizeAreaStr (JStr s) =
     (let ps = split_on (CHR ''-'') s;
          r = spec_component ps 0;
          n = spec_component ps 1;
          w = spec_component ps 2
      in if r = Fin 0 \<and> n = Fin 0 \<and> w = Fin 0 then Inr ''''
         else Inr (num_to_string r @ ''-'' @ num_to_string n @ ''-'' @ num_to_string w))"
proof (cases "s = []")
  case True
  then show ?thesis by (simp add: spec_component_def parseFloat_empty)
next
  case False
  then show ?thesis by (simp add: Let_def or0_parseFloat_opt)
qed

subsection \<open>Digits\<close>

lemma digit_char_cases:
  assumes "0 \<le> d" and "d < 10"
  shows "d = 0 \<or> d = 1 \<or> d = 2 \<or> d = 3 \<or> d = 4 \<or> d = 5 \<or> d = 6 \<or> d = 7 \<or> d = 8 \<or> d = (9::int)"
  using assms by arith

lemma digit_char_props:
  assumes "0 \<le> d" and "d < 10"
  shows "is_digit (digit_char d)" and "digit_val (digit_char d) = d"
    and "digit_char d = CHR ''0'' \<longleftrightarrow> d = 0"
  using digit_char_cases [OF assms]
  by (auto simp: is_digit_def digit_char_def digit_val_def)

lemma is_digit_props:
  assumes "is_digit c"
  shows "\<not> is_ws c" and "c \<noteq> CHR ''-''" and "c \<noteq> CHR ''+''" and "c \<noteq> CHR ''.''"
    and "c \<noteq> CHR ''e''" and "c \<noteq> CHR ''E''" and "c \<noteq> CHR ''I''"
    and "digit_val c < 10" and "0 \<le> digit_val c"
  using assms by (auto simp: is_digit_def is_ws_def digit_val_def)

lemma foldl_digits_shift:
  "foldl (\<lambda>a c. 10 * a + digit_val c) a ys
     = a * 10 ^ length ys + foldl (\<lambda>a c. 10 * a + digit_val c) 0 ys"
proof (induction ys arbitrary: a)
  case Nil
  show ?case by simp
next
  case (Cons y ys)
  show ?case
    using Cons.IH [of "10 * a + digit_val y"] Cons.IH [of "digit_val y"]
    by (simp add: algebra_simps)
qed

lemma val_digits_append:
  "val_digits (xs @ ys) = val_digits xs * 10 ^ length ys + val_digits ys"
  unfolding val_digits_def foldl_append
  by (rule foldl_digits_shift)

lemma val_digits_simps [simp]:
  "val_digits [] = 0" "val_digits [c] = digit_val c"
  by (simp_all add: val_digits_def)

lemma val_digits_snoc: "val_digits (ds @ [c]) = val_digits ds * 10 + digit_val c"
  by (simp add: val_digits_append)

lemma val_digits_zeros [simp]: "val_digits (replicate k (CHR ''0'')) = 0"
proof (induction k)
  case 0
  show ?case by simp
next
  case (Suc k)
  have "replicate (Suc k) (CHR ''0'') = replicate k (CHR ''0'') @ [CHR ''0'']"
    by (simp add: replicate_append_same)
  then show ?case using Suc by (simp add: val_digits_snoc digit_val_def)
qed

lemma val_digits_bounds:
  assumes "list_all is_digit ds"
  shows "0 \<le> val_digits ds" and "val_digits ds < 10 ^ length ds"
proof -
  have "0 \<le> val_digits ds \<and> val_digits ds < 10 ^ length ds"
    using assms
  proof (induction ds rule: rev_induct)
    case Nil
    show ?case by simp
  next
    case (snoc c ds)
    then have "0 \<le> val_digits ds" "val_digits ds < 10 ^ length ds"
      and "digit_val c < 10" "0 \<le> digit_val c"
      by (simp_all add: is_digit_props)
    then have "0 \<le> val_digits ds * 10 + digit_val c"
      and "val_digits ds * 10 + digit_val c < 10 ^ length ds * 10"
      by arith+
    then show ?case by (simp add: val_digits_snoc)
  qed
  then show "0 \<le> val_digits ds" and "val_digits ds < 10 ^ length ds" by simp_all
qed

lemma is_digits_digits_of: "0 \<le> n \<Longrightarrow> list_all is_digit (digits_of n)"
proof (induction n rule: digits_of.induct)
  case (1 n)
  show ?case
  proof (cases "n < 10")
    case True
    then show ?thesis using "1.prems" by (subst digits_of.simps) (simp add: digit_char_props)
  next
    case False
    then have "list_all is_digit (digits_of (n div 10))" using "1.prems" by (intro "1.IH") simp_all
    moreover have "is_digit (digit_char (n mod 10))" by (simp add: digit_char_props)
    ultimately show ?thesis using False by (subst digits_of.simps) simp
  qed
qed

lemma val_digits_digits_of: "0 \<le> n \<Longrightarrow> val_digits (digits_of n) = n"
proof (induction n rule: digits_of.induct)
  case (1 n)
  show ?case
  proof (cases "n < 10")
    case True
    then show ?thesis using "1.prems" by (subst digits_of.simps) (simp add: digit_char_props)
  next
    case False
    then have "val_digits (digits_of (n div 10)) = n div 10"
      using "1.prems" by (intro "1.IH") simp_all
    then show ?thesis
      using False by (subst digits_of.simps) (simp add: val_digits_snoc digit_char_props)
  qed
qed

lemma digits_of_nonempty [simp]: "digits_of n \<noteq> []"
  by (subst digits_of.simps) simp

lemma hd_digits_of: "0 < n \<Longrightarrow> hd (digits_of n) \<noteq> CHR ''0''"
proof (induction n rule: digits_of.induct)
  case (1 n)
  show ?case
  proof (cases "n < 10")
    case True
    then show ?thesis using "1.prems" by (subst digits_of.simps) (simp add: digit_char_props)
  next
    case False
    then have "hd (digits_of (n div 10)) \<noteq> CHR ''0''" by (intro "1.IH") auto
    then show ?thesis
      using False by (subst digits_of.simps) simp
  qed
qed

lemma takeWhile_eq_replicate: "takeWhile (\<lambda>c. c = z) xs = replicate (length (takeWhile (\<lambda>c. c = z) xs)) z"
  by (induction xs) simp_all

lemma strip_zeros_decomp:
  "ds = strip_zeros ds @ replicate (length ds - length (strip_zeros ds)) (CHR ''0'')"
proof -
  let ?P = "\<lambda>c. c = CHR ''0''"
  have "length (takeWhile ?P (rev ds)) + length (dropWhile ?P (rev ds)) = length (rev ds)"
    by (metis takeWhile_dropWhile_id length_append)
  then have l: "length (takeWhile ?P (rev ds)) = length ds - length (strip_zeros ds)"
    by (simp add: strip_zeros_def)
  have "rev (rev ds) = rev (takeWhile ?P (rev ds) @ dropWhile ?P (rev ds))"
    by (simp only: takeWhile_dropWhile_id)
  then have "ds = rev (dropWhile ?P (rev ds)) @ rev (takeWhile ?P (rev ds))"
    by (simp only: rev_rev_ident rev_append)
  also have "rev (takeWhile ?P (rev ds)) = replicate (length ds - length (strip_zeros ds)) (CHR ''0'')"
    using takeWhile_eq_replicate [of "CHR ''0''" "rev ds"] l by (metis rev_replicate)
  finally show ?thesis by (simp add: strip_zeros_def)
qed

lemma strip_zeros_nonempty:
  assumes "ds \<noteq> []" and "hd ds \<noteq> CHR ''0''"
  shows "strip_zeros ds \<noteq> []" and "hd (strip_zeros ds) = hd ds"
proof -
  obtain c cs where ds: "ds = c # cs" using assms(1) by (cases ds) auto
  then have c: "c \<noteq> CHR ''0''" using assms(2) by simp
  have "dropWhile (\<lambda>c. c = CHR ''0'') (rev cs @ [c]) = dropWhile (\<lambda>c. c = CHR ''0'') (rev cs) @ [c]"
    using c by (induction "rev cs" arbitrary: cs) (auto simp: dropWhile_append)
  then have "strip_zeros ds = c # rev (dropWhile (\<lambda>c. c = CHR ''0'') (rev cs))"
    by (simp add: strip_zeros_def ds)
  then show "strip_zeros ds \<noteq> []" and "hd (strip_zeros ds) = hd ds"
    by (simp_all add: ds)
qed

lemma strip_zeros_digits: "list_all is_digit ds \<Longrightarrow> list_all is_digit (strip_zeros ds)"
  by (auto simp: list_all_iff strip_zeros_def dest: set_dropWhileD)

lemma takeWhile_digits:
  assumes "list_all is_digit ds" and "r = [] \<or> \<not> is_digit (hd r)"
  shows "takeWhile is_digit (ds @ r) = ds" and "dropWhile is_digit (ds @ r) = r"
proof -
  have r: "takeWhile is_digit r = []" "dropWhile is_digit r = r"
    using assms(2) by (cases r; auto)+
  show "takeWhile is_digit (ds @ r) = ds" "dropWhile is_digit (ds @ r) = r"
    using assms(1) r by (simp_all add: list_all_iff takeWhile_append2 dropWhile_append2)
qed

subsection \<open>The range of \<^verbatim>\<open>parseFloat\<close> and of \<^verbatim>\<open>parseAreaToWah\<close>\<close>

lemma read_sign_no_minus:
  assumes "CHR ''-'' \<notin> set t"
  shows "fst (read_sign t) = False"
  using assms by (cases t) auto

lemma parseFloat_no_minus:
  assumes "CHR ''-'' \<notin> set s"
  shows "parseFloat s = NaN \<or> parseFloat s = PInf \<or> (\<exists>q. parseFloat s = Fin q \<and> 0 \<le> q)"
proof -
  have "CHR ''-'' \<notin> set (dropWhile is_ws s)"
    using assms by (auto dest: set_dropWhileD)
  then have "\<not> fst (read_sign (dropWhile is_ws s))"
    by (simp add: read_sign_no_minus)
  then obtain t where rs: "read_sign (dropWhile is_ws s) = (False, t)"
    by (cases "read_sign (dropWhile is_ws s)") auto
  define ip where "ip = takeWhile is_digit t"
  define r1 where "r1 = dropWhile is_digit t"
  define fr where "fr = (case r1 of
                          c # u \<Rightarrow> if c = CHR ''.''
                                   then (takeWhile is_digit u, dropWhile is_digit u)
                                   else ([], r1)
                        | [] \<Rightarrow> ([], r1))"
  define mt where
    "mt = (of_int (val_digits ip) + of_int (val_digits (fst fr)) / 10 ^ length (fst fr))
            * pow10 (read_exp (snd fr))"
  have pf: "parseFloat s =
      (if take 8 t = ''Infinity'' then PInf
       else if ip = [] \<and> fst fr = [] then NaN
       else round64 mt)"
    unfolding parseFloat_def rs mt_def fr_def r1_def ip_def
    by (simp add: Let_def split: prod.splits)
  have "list_all is_digit ip"
    unfolding ip_def by (simp add: list_all_iff) (metis set_takeWhileD)
  moreover have "list_all is_digit (fst fr)"
    unfolding fr_def by (auto simp: list_all_iff split: list.splits dest: set_takeWhileD)
  ultimately have "0 \<le> val_digits ip" "0 \<le> val_digits (fst fr)"
    by (simp_all add: val_digits_bounds(1))
  then have "0 \<le> mt"
    unfolding mt_def using pow10_pos [of "read_exp (snd fr)"] by simp
  then have "round64 mt = PInf \<or> (\<exists>r. round64 mt = Fin r \<and> 0 \<le> r)"
    by (rule round64_nonneg)
  then show ?thesis unfolding pf by auto
qed

lemma spec_component_shape:
  "spec_component (split_on (CHR ''-'') s) i = PInf
   \<or> (\<exists>q. spec_component (split_on (CHR ''-'') s) i = Fin q \<and> 0 \<le> q)"
proof (cases "i < length (split_on (CHR ''-'') s)")
  case True
  then have "split_on (CHR ''-'') s ! i \<in> set (split_on (CHR ''-'') s)" by simp
  then have "CHR ''-'' \<notin> set (split_on (CHR ''-'') s ! i)" by (rule split_on_parts_no_sep)
  then show ?thesis
    using parseFloat_no_minus [of "split_on (CHR ''-'') s ! i"] True
    by (auto simp: spec_component_def)
next
  case False
  then show ?thesis by (auto simp: spec_component_def)
qed

lemma nonneg_mul:
  assumes "x = PInf \<or> (\<exists>q. x = Fin q \<and> 0 \<le> q)" and "0 < c"
  shows "js_mul x (Fin c) = PInf \<or> (\<exists>q. js_mul x (Fin c) = Fin q \<and> 0 \<le> q)"
  using assms(1)
proof
  assume "x = PInf"
  then show ?thesis using assms(2) by simp
next
  assume "\<exists>q. x = Fin q \<and> 0 \<le> q"
  then obtain q where q: "x = Fin q" "0 \<le> q" by blast
  then have "0 \<le> q * c" using assms(2) by simp
  then show ?thesis using round64_nonneg [of "q * c"] by (simp add: q(1))
qed

lemma nonneg_add:
  assumes "x = PInf \<or> (\<exists>q. x = Fin q \<and> 0 \<le> q)"
    and "y = PInf \<or> (\<exists>q. y = Fin q \<and> 0 \<le> q)"
  shows "js_add x y = PInf \<or> (\<exists>q. js_add x y = Fin q \<and> 0 \<le> q)"
proof -
  consider "x = PInf" | "y = PInf" | a b where "x = Fin a" "0 \<le> a" "y = Fin b" "0 \<le> b"
    using assms by blast
  then show ?thesis
  proof cases
    case 1
    then show ?thesis using assms(2) by auto
  next
    case 2
    then show ?thesis using assms(1) by auto
  next
    case 3
    then show ?thesis using round64_nonneg [of "a + b"] by simp
  qed
qed

lemma parseAreaToWah_range:
  "parseAreaToWah v = PInf \<or> (\<exists>q. parseAreaToWah v = Fin q \<and> 0 \<le> q)"
proof (cases v)
  case (JStr s)
  define ps where "ps = split_on (CHR ''-'') s"
  have c: "spec_component ps i = PInf \<or> (\<exists>q. spec_component ps i = Fin q \<and> 0 \<le> q)" for i
    unfolding ps_def by (rule spec_component_shape)
  have "spec_scalar ps = PInf \<or> (\<exists>q. spec_scalar ps = Fin q \<and> 0 \<le> q)"
    unfolding spec_scalar_def
    by (intro nonneg_add nonneg_mul c) simp_all
  then show ?thesis
    unfolding JStr parseAreaToWah_JStr ps_def .
qed simp_all

subsection \<open>\<^verbatim>\<open>parseAreaToWah\<close>\<close>

text \<open>
  Claim C2: \<open>parseToScalar\<close> splits its input at \<open>-\<close>, parses each of the first three
  components as a number with an unparseable or missing component taken as \<open>0\<close>, ignores
  the components after the third, and returns \<open>A * 400 + B * 100 + C\<close>; for \<open>null\<close>, a value
  that is not a string, or the empty string it returns \<open>0\<close>. The function has no branch
  that throws: on every value it returns a number, which is never \<open>NaN\<close> and never
  negative.
\<close>

theorem C2_parseAreaToWah:
  "parseAreaToWah (JStr s) = spec_scalar (take 3 (split_on (CHR ''-'') s))
   \<and> parseAreaToWah JNull = Fin 0
   \<and> parseAreaToWah JUndefined = Fin 0
   \<and> parseAreaToWah (JBool b) = Fin 0
   \<and> parseAreaToWah (JNum x) = Fin 0
   \<and> parseAreaToWah (JStr '''') = Fin 0
   \<and> parseAreaToWah (JStr ''abc-def-ghi'') = Fin 0
   \<and> (parseAreaToWah v = PInf \<or> (\<exists>q. parseAreaToWah v = Fin q \<and> 0 \<le> q))"
proof -
  have g: "parseAreaToWah (JStr s) = spec_scalar (take 3 (split_on (CHR ''-'') s))"
    by (simp only: parseAreaToWah_JStr spec_scalar_take3)
  have x: "parseAreaToWah (JStr ''abc-def-ghi'') = Fin 0"
    by code_simp
  show ?thesis
    by (intro conjI) (rule g, simp, simp, simp, simp, simp, rule x, rule parseAreaToWah_range)
qed

theorem C2_parseAreaToWah_witness:
  "parseAreaToWah (JStr ''1-2-3-4'') = spec_scalar [''1'', ''2'', ''3'']
   \<and> parseAreaToWah (JStr ''1-2-3-4'') = Fin 603"
proof -
  have "spec_scalar [''1'', ''2'', ''3''] = Fin 603" by code_simp
  then show ?thesis using C2_parseAreaToWah [of "''1-2-3-4''"] by simp
qed

subsection \<open>\<^verbatim>\<open>wahToAreaStr\<close>\<close>

lemma positive_truthy: "js_gt (to_number v) (Fin 0) \<Longrightarrow> truthy v"
proof (cases v)
  case (JStr s)
  assume "js_gt (to_number v) (Fin 0)"
  then show ?thesis
    by (cases "s = []") (simp_all add: JStr js_gt_def string_to_number_def trim_ws_def)
next
  case (JNum x)
  assume "js_gt (to_number v) (Fin 0)"
  then show ?thesis by (cases x) (simp_all add: JNum js_gt_def)
qed (simp_all add: js_gt_def split: if_splits)

lemma wahToAreaStr_positive:
  assumes "js_gt (to_number v) (Fin 0)"
  shows "wahToAreaStr v = spec_text (to_number v)"
proof -
  have "\<not> js_le (to_number v) (Fin 0)"
    using assms by (simp add: js_gt_def js_le_def)
  then show ?thesis
    using positive_truthy [OF assms]
    by (simp add: wahToAreaStr_def spec_text_def spec_round2_def Let_def)
qed

text \<open>
  Claim C3: \<open>scalarToText\<close> maps every input that is \<open>\<le> 0\<close> or falsy to \<open>"0-0-0"\<close>; for
  every positive total it returns \<open>"{rai}-{ngan}-{wah}"\<close> with
  \<open>rai = floor(total / 400)\<close>, \<open>ngan = floor((total - rai * 400) / 100)\<close> and \<open>wah\<close> the
  rest rounded to two decimal places, all in the arithmetic of the code. In particular
  \<open>scalarToText(0)\<close> and \<open>scalarToText(-5)\<close> are \<open>"0-0-0"\<close>.
\<close>

theorem C3_wahToAreaStr:
  "(\<not> truthy v \<or> js_le (to_number v) (Fin 0) \<longrightarrow> wahToAreaStr v = ''0-0-0'')
   \<and> (q \<le> 0 \<longrightarrow> wahToAreaStr (JNum (Fin q)) = ''0-0-0'')
   \<and> wahToAreaStr (JNum NaN) = ''0-0-0''
   \<and> wahToAreaStr (JNum NInf) = ''0-0-0''
   \<and> wahToAreaStr JUndefined = ''0-0-0''
   \<and> wahToAreaStr JNull = ''0-0-0''
   \<and> wahToAreaStr (JBool False) = ''0-0-0''
   \<and> wahToAreaStr (JStr '''') = ''0-0-0''
   \<and> (js_gt (to_number v) (Fin 0) \<longrightarrow> wahToAreaStr v = spec_text (to_number v))
   \<and> wahToAreaStr (JNum (Fin 0)) = ''0-0-0''
   \<and> wahToAreaStr (JNum (Fin (- 5))) = ''0-0-0''"
proof -
  have guard: "\<not> truthy v \<or> js_le (to_number v) (Fin 0) \<longrightarrow> wahToAreaStr v = ''0-0-0''"
    by (simp add: wahToAreaStr_def)
  have nonpos: "q \<le> 0 \<longrightarrow> wahToAreaStr (JNum (Fin q)) = ''0-0-0''"
    by (auto simp: wahToAreaStr_def js_le_def)
  have pos: "js_gt (to_number v) (Fin 0) \<longrightarrow> wahToAreaStr v = spec_text (to_number v)"
    using wahToAreaStr_positive by blast
  show ?thesis
    by (intro conjI guard nonpos pos) (simp_all add: wahToAreaStr_def js_le_def)
qed

theorem C3_wahToAreaStr_witness:
  "js_gt (to_number (JNum (Fin 5041))) (Fin 0)
   \<and> wahToAreaStr (JNum (Fin 5041)) = spec_text (Fin 5041)
   \<and> spec_text (Fin 5041) = ''12-2-41''
   \<and> (- 5 :: rat) \<le> 0 \<and> wahToAreaStr (JNum (Fin (- 5))) = ''0-0-0''
   \<and> \<not> truthy (JStr '''') \<and> wahToAreaStr (JStr '''') = ''0-0-0''"
proof -
  have c: "spec_text (Fin 5041) = ''12-2-41''"
    by code_simp
  show ?thesis
    using C3_wahToAreaStr [of "JNum (Fin 5041)" "- 5"] C3_wahToAreaStr [of "JStr ''''" 0] c
    by (simp add: js_gt_def)
qed

subsection \<open>The worked example of the two conversions\<close>

text \<open>
  Claim C5, as the specification has it: \<open>parseToScalar("12-2-41")\<close> is \<open>4841\<close> and
  \<open>scalarToText(4841)\<close> is \<open>"12-2-41"\<close>. Both halves fail: twelve rai, two ngan and 41 wah
  are \<open>12 * 400 + 2 * 100 + 41 = 5041\<close> wah, and \<open>4841\<close> wah are twelve rai and 41 wah.
\<close>

theorem C5_example_as_stated_fails:
  "parseAreaToWah (JStr ''12-2-41'') \<noteq> Fin 4841 \<and> wahToAreaStr (JNum (Fin 4841)) \<noteq> ''12-2-41''"
  by code_simp

text \<open>
  Claim C5, amended: \<open>parseToScalar("12-2-41")\<close> is \<open>5041\<close>, and \<open>scalarToText(5041)\<close> is
  \<open>"12-2-41"\<close>.
\<close>

theorem C5_example_amended:
  "parseAreaToWah (JStr ''12-2-41'') = Fin 5041 \<and> wahToAreaStr (JNum (Fin 5041)) = ''12-2-41''"
  by code_simp

theorem C5_example_amended_witness:
  "wahToAreaStr (JNum (Fin 5041)) = ''12-2-41'' \<and> parseAreaToWah (JStr ''12-2-41'') = Fin (12 * 400 + 2 * 100 + 41)"
  using C5_example_amended by simp

subsection \<open>Allocation validation\<close>

text \<open>
  Claim C4: the used area is the sum of \<open>parseToScalar\<close> over the areas of the selected
  categories, the remaining area is the total minus the used area, and the allocation is
  over the limit exactly when the total is positive and the used area is greater than the
  total; deselecting a category removes its area entry, so that it no longer contributes
  to the used area. With the total \<open>"10-0-0"\<close> (4000 wah) and the categories \<open>a\<close> at
  \<open>"5-0-0"\<close> and \<open>b\<close> at \<open>"3-0-0"\<close>, the used area is 3200, the remaining area is 800, and the
  allocation is not over the limit.
\<close>

theorem C4_allocation:
  "usedWah st = spec_sum (map (\<lambda>k. parseAreaToWah (area_at (areas st) k)) (selected st))
   \<and> remainWah totalArea st = js_sub (parseAreaToWah totalArea) (usedWah st)
   \<and> isOverLimit totalArea st =
       (js_gt (parseAreaToWah totalArea) (Fin 0) \<and> js_gt (usedWah st) (parseAreaToWah totalArea))
   \<and> (key \<in> set (selected st) \<longrightarrow>
        areas (toggle key st) key = None
        \<and> key \<notin> set (selected (toggle key st))
        \<and> usedWah (toggle key st) =
            spec_sum (map (\<lambda>k. parseAreaToWah (area_at (areas st) k))
              (filter (\<lambda>k. k \<noteq> key) (selected st))))
   \<and> parseAreaToWah (JStr ''10-0-0'') = Fin 4000
   \<and> usedWah example_popup = Fin 3200
   \<and> remainWah (JStr ''10-0-0'') example_popup = Fin 800
   \<and> \<not> isOverLimit (JStr ''10-0-0'') example_popup"
proof -
  have ex: "parseAreaToWah (JStr ''10-0-0'') = Fin 4000" "usedWah example_popup = Fin 3200"
    "remainWah (JStr ''10-0-0'') example_popup = Fin 800"
    "\<not> isOverLimit (JStr ''10-0-0'') example_popup"
    by code_simp+
  show ?thesis
    using ex toggle_off [of key st]
    by (simp add: usedWah_sum [symmetric] otherUsed_sum [symmetric] remainWah_def
        isOverLimit_def totalWah_def)
qed

theorem C4_allocation_witness:
  "''a'' \<in> set (selected example_popup)
   \<and> areas (toggle ''a'' example_popup) ''a'' = None
   \<and> usedWah (toggle ''a'' example_popup) = Fin 1200"
proof -
  have m: "''a'' \<in> set (selected example_popup)"
    by (simp add: example_popup_def)
  have v: "spec_sum (map (\<lambda>k. parseAreaToWah (area_at (areas example_popup) k))
             (filter (\<lambda>k. k \<noteq> ''a'') (selected example_popup))) = Fin 1200"
    by code_simp
  show ?thesis
    using C4_allocation [of example_popup JNull "''a''"] m v by simp
qed

subsection \<open>Filling in the remainder\<close>

text \<open>
  Claim C6, as the specification has it, ends with an example: with the total
  \<open>"10-0-0"\<close> and 3200 wah used by the other categories, the remaining 800 wah are filled
  in as \<open>"0-2-0"\<close>. The code fills in \<open>"2-0-0"\<close>: 800 wah are two rai, and \<open>"0-2-0"\<close> would be
  200 wah.
\<close>

theorem C6_example_as_stated_fails:
  "otherUsed example_target ''c'' = Fin 3200
   \<and> js_sub (totalWah (JStr ''10-0-0'')) (otherUsed example_target ''c'') = Fin 800
   \<and> area_at (areas (autoFillRemain (JStr ''10-0-0'') ''c'' example_target)) ''c''
       \<noteq> JStr ''0-2-0''
   \<and> parseAreaToWah (JStr ''0-2-0'') = Fin 200"
  by code_simp

text \<open>
  Claim C6, amended: for a target category, \<open>otherUsed\<close> is the sum of \<open>parseToScalar\<close>
  over the areas of all other selected categories; with
  \<open>remaining = totalScalar - otherUsed\<close>, if \<open>remaining > 0\<close> the area of the target
  category is set to \<open>scalarToText(remaining)\<close>; the operation is offered only when
  \<open>totalScalar > 0\<close>. In the example with the total \<open>"10-0-0"\<close> and 3200 wah used by the
  other categories, the remaining 800 wah are filled in as \<open>"2-0-0"\<close>.
\<close>

theorem C6_autoFillRemain:
  "otherUsed st key =
     spec_sum (map (\<lambda>k. parseAreaToWah (area_at (areas st) k))
       (filter (\<lambda>k. k \<noteq> key) (selected st)))
   \<and> (js_gt (js_sub (parseAreaToWah totalArea) (otherUsed st key)) (Fin 0) \<longrightarrow>
        autoFillRemain totalArea key st =
          st\<lparr>areas := (areas st)(key \<mapsto>
               JStr (wahToAreaStr (JNum (js_sub (parseAreaToWah totalArea) (otherUsed st key)))))\<rparr>)
   \<and> (autoFill_offered totalArea st key \<longrightarrow> js_gt (parseAreaToWah totalArea) (Fin 0))
   \<and> otherUsed example_target ''c'' = Fin 3200
   \<and> area_at (areas (autoFillRemain (JStr ''10-0-0'') ''c'' example_target)) ''c''
       = JStr ''2-0-0''"
proof -
  have ex: "otherUsed example_target ''c'' = Fin 3200"
    "area_at (areas (autoFillRemain (JStr ''10-0-0'') ''c'' example_target)) ''c''
       = JStr ''2-0-0''"
    by code_simp+
  have fill: "js_gt (js_sub (parseAreaToWah totalArea) (otherUsed st key)) (Fin 0) \<longrightarrow>
        autoFillRemain totalArea key st =
          st\<lparr>areas := (areas st)(key \<mapsto>
               JStr (wahToAreaStr (JNum (js_sub (parseAreaToWah totalArea) (otherUsed st key)))))\<rparr>"
    by (simp add: autoFillRemain_def totalWah_def Let_def)
  have offered: "autoFill_offered totalArea st key \<longrightarrow> js_gt (parseAreaToWah totalArea) (Fin 0)"
    by (simp add: autoFill_offered_def onAutoFill_given_def totalWah_def)
  show ?thesis
    by (intro conjI) (rule otherUsed_sum, rule fill, rule offered, rule ex(1), rule ex(2))
qed

theorem C6_autoFillRemain_witness:
  "js_gt (js_sub (parseAreaToWah (JStr ''10-0-0'')) (otherUsed example_target ''c'')) (Fin 0)
   \<and> autoFill_offered (JStr ''10-0-0'') example_target ''c''
   \<and> autoFillRemain (JStr ''10-0-0'') ''c'' example_target =
       example_target\<lparr>areas := (areas example_target)(''c'' \<mapsto> JStr ''2-0-0'')\<rparr>"
proof -
  have r: "js_sub (parseAreaToWah (JStr ''10-0-0'')) (otherUsed example_target ''c'') = Fin 800"
    by code_simp
  have w: "wahToAreaStr (JNum (Fin 800)) = ''2-0-0''"
    by code_simp
  have o: "autoFill_offered (JStr ''10-0-0'') example_target ''c''"
    by code_simp
  show ?thesis
    using C6_autoFillRemain [of example_target "''c''" "JStr ''10-0-0''"] r w o
    by (simp add: js_gt_def)
qed

subsection \<open>No operation throws?\<close>

text \<open>
  Claim C7: every operation is total over arbitrary input and returns its safe default,
  never throwing. \<^verbatim>\<open>parseAreaToWah\<close> and \<^verbatim>\<open>parseAreaParts\<close> test
  \<^verbatim>\<open>typeof str !== 'string'\<close>; \<^verbatim>\<open>normalizeAreaStr\<close> tests \<^verbatim>\<open>!str\<close> only, and
  throws a \<open>TypeError\<close> on a truthy value that is not a string, such as the number \<open>5\<close>,
  where its two siblings return their defaults.
\<close>

theorem C7_normalizeAreaStr_throws:
  "normalizeAreaStr (JNum (Fin 5)) = Inl TypeError
   \<and> normalizeAreaStr (JBool True) = Inl TypeError
   \<and> parseAreaToWah (JNum (Fin 5)) = Fin 0
   \<and> parseAreaParts (JNum (Fin 5)) = \<lparr>rai = '''', ngan = '''', wah = ''''\<rparr>"
  by simp

subsection \<open>\<^verbatim>\<open>normalizeAreaStr\<close>\<close>

text \<open>
  Claim C8: \<open>normalizeForStorage\<close> parses each of the three components with
  \<^verbatim>\<open>parseFloat\<close>, an absent or invalid component being \<open>0\<close>; if all three are \<open>0\<close> it
  returns the empty string, otherwise \<open>"{r}-{n}-{w}"\<close> from the parsed numbers. In
  particular \<open>"0-0-0"\<close> and \<open>""\<close> give \<open>""\<close>, and \<open>"1-0-0"\<close> gives \<open>"1-0-0"\<close>.
\<close>

theorem C8_normalizeAreaStr:
  "normalizeAreaStr (JStr s) =
     (let ps = split_on (CHR ''-'') s;
          r = spec_component ps 0;
          n = spec_component ps 1;
          w = spec_component ps 2
      in if r = Fin 0 \<and> n = Fin 0 \<and> w = Fin 0 then Inr ''''
         else Inr (num_to_string r @ ''-'' @ num_to_string n @ ''-'' @ num_to_string w))
   \<and> normalizeAreaStr (JStr ''0-0-0'') = Inr ''''
   \<and> normalizeAreaStr (JStr '''') = Inr ''''
   \<and> normalizeAreaStr (JStr ''1-0-0'') = Inr ''1-0-0''"
proof -
  have ex: "normalizeAreaStr (JStr ''0-0-0'') = Inr ''''"
    "normalizeAreaStr (JStr '''') = Inr ''''"
    "normalizeAreaStr (JStr ''1-0-0'') = Inr ''1-0-0''"
    by code_simp+
  show ?thesis
    by (intro conjI) (rule normalizeAreaStr_JStr, rule ex(1), rule ex(2), rule ex(3))
qed

theorem C8_normalizeAreaStr_witness:
  "normalizeAreaStr (JStr ''007-x-1.50'') = Inr ''7-0-1.5''"
proof -
  have "(let ps = split_on (CHR ''-'') ''007-x-1.50'';
          r = spec_component ps 0;
          n = spec_component ps 1;
          w = spec_component ps 2
      in if r = Fin 0 \<and> n = Fin 0 \<and> w = Fin 0 then Inr ''''
         else Inr (num_to_string r @ ''-'' @ num_to_string n @ ''-'' @ num_to_string w))
     = (Inr ''7-0-1.5'' :: js_error + string)"
    by code_simp
  then show ?thesis
    using C8_normalizeAreaStr [of "''007-x-1.50''"] by (simp only:)
qed

subsection \<open>\<^verbatim>\<open>partsToStr\<close> and \<^verbatim>\<open>parseAreaParts\<close>\<close>

text \<open>
  Claim C9: \<open>joinParts\<close> concatenates its three arguments with \<open>-\<close> between them, empty
  strings staying empty, and \<open>splitToParts\<close> undoes it: for strings \<open>rai\<close>, \<open>ngan\<close>, \<open>wah\<close>
  without a \<open>-\<close>, \<open>splitToParts(joinParts(rai, ngan, wah))\<close> is exactly the three strings.
  In particular \<open>joinParts("12", "0", "")\<close> is \<open>"12-0-"\<close>, and \<open>splitToParts("12-0-")\<close> has
  \<open>rai = "12"\<close>, \<open>ngan = "0"\<close> and \<open>wah = ""\<close>.
\<close>

theorem C9_parts_roundtrip:
  assumes "CHR ''-'' \<notin> set r" and "CHR ''-'' \<notin> set n" and "CHR ''-'' \<notin> set w"
  shows "parseAreaParts (JStr (partsToStr r n w)) = \<lparr>rai = r, ngan = n, wah = w\<rparr>
    \<and> partsToStr r n w = r @ ''-'' @ n @ ''-'' @ w
    \<and> partsToStr ''12'' ''0'' '''' = ''12-0-''
    \<and> parseAreaParts (JStr ''12-0-'') = \<lparr>rai = ''12'', ngan = ''0'', wah = ''''\<rparr>"
proof -
  have "split_on (CHR ''-'') (r @ CHR ''-'' # n @ CHR ''-'' # w) = [r, n, w]"
    using assms by (simp add: split_on_append split_on_no_sep)
  then have rt: "parseAreaParts (JStr (partsToStr r n w)) = \<lparr>rai = r, ngan = n, wah = w\<rparr>"
    by (simp add: partsToStr_def Let_def part_field_def nth_opt_def)
  have cat: "partsToStr r n w = r @ ''-'' @ n @ ''-'' @ w"
    by (simp add: partsToStr_def)
  have ex: "partsToStr ''12'' ''0'' '''' = ''12-0-''"
    "parseAreaParts (JStr ''12-0-'') = \<lparr>rai = ''12'', ngan = ''0'', wah = ''''\<rparr>"
    by code_simp+
  show ?thesis
    by (intro conjI) (rule rt, rule cat, rule ex(1), rule ex(2))
qed

theorem C9_parts_roundtrip_witness:
  "CHR ''-'' \<notin> set ''12'' \<and> CHR ''-'' \<notin> set ''0'' \<and> CHR ''-'' \<notin> set ''''
   \<and> parseAreaParts (JStr (partsToStr ''12'' ''0'' '''')) =
       \<lparr>rai = ''12'', ngan = ''0'', wah = ''''\<rparr>"
proof -
  have a: "CHR ''-'' \<notin> set ''12''" "CHR ''-'' \<notin> set ''0''" "CHR ''-'' \<notin> set ''''"
    by simp_all
  show ?thesis
    using C9_parts_roundtrip [OF a] a by simp
qed

subsection \<open>Normalizing before storing\<close>

text \<open>
  Claim C10: for every string \<open>s\<close>,
  \<open>parseToScalar(normalizeForStorage(s)) = parseToScalar(s)\<close>. \<^verbatim>\<open>normalizeAreaStr\<close>
  writes the three parsed numbers with \<open>-\<close> between them, to be parsed again later; a
  positive number below \<open>10\<^sup>-\<^sup>6\<close> is printed with a negative exponent, whose \<open>-\<close> is then
  read as a separator. The text \<open>"0.0000001"\<close>, about 0.00004 wah, is stored as
  \<open>"1e-7-0-0"\<close>, which is read as 1100 wah.
\<close>

theorem C10_exponent_breaks_triple:
  "normalizeAreaStr (JStr ''0.0000001'') = Inr ''1e-7-0-0''
   \<and> parseAreaToWah (JStr ''1e-7-0-0'') = Fin 1100
   \<and> num_to_string (parseAreaToWah (JStr ''0.0000001'')) = ''0.000039999999999999996''
   \<and> js_lt (parseAreaToWah (JStr ''0.0000001'')) (Fin 1)"
  by code_simp

end
